theory Spec2Isabelle
  imports Main "HOL-Library.Word"
begin

section \<open>Data model\<close>

text \<open>
  The worker template has two loops, a producer (\<^verbatim>\<open>ProducerWorker\<close>) and a consumer
  (\<^verbatim>\<open>ConsumerWorker\<close>), a repository over one PostgreSQL table (\<^verbatim>\<open>userRepository\<close>)
  and a thin wrapper of an AMQP channel (\<^verbatim>\<open>RabbitMQService\<close>).  The embedding keeps
  the Go functions as HOL functions over an explicit state: the table, the calls issued to
  the AMQP channel, the lines written to the logger and the worker's context.
\<close>

subsection \<open>Go values\<close>

type_synonym byte = "8 word"

text \<open>An integer as Go's \<^verbatim>\<open>int64\<close> holds it: two's complement, wrapping around.\<close>

definition int64 :: "int \<Rightarrow> int" where
  "int64 i = (i + 9223372036854775808) mod 18446744073709551616 - 9223372036854775808"

text \<open>
  \<^verbatim>\<open>time.Time\<close> as an instant, in nanoseconds since the Unix epoch (its location and
  its monotonic reading play no part here).  \<^verbatim>\<open>Unix()\<close> is the floor of the seconds
  and \<^verbatim>\<open>UnixNano()\<close> the count of nanoseconds, both as \<^verbatim>\<open>int64\<close>: an instant
  before 1678 or after 2262 has a count of nanoseconds that wraps.  The zero
  \<^verbatim>\<open>time.Time\<close> is January 1, year 1, 00:00 UTC.
\<close>

type_synonym gotime = int

definition zero_time :: gotime where
  "zero_time = - 62135596800 * 1000000000"

definition Unix :: "gotime \<Rightarrow> int" where
  "Unix t = int64 (t div 1000000000)"

definition UnixNano :: "gotime \<Rightarrow> int" where
  "UnixNano t = int64 t"

text \<open>
  What an \<^verbatim>\<open>interface{}\<close> holds in this program: the values \<^verbatim>\<open>encoding/json\<close>
  stores into an \<^verbatim>\<open>interface{}\<close> (nil, bool, float64 as its 64 bits, string,
  \<^verbatim>\<open>[]interface{}\<close>, \<^verbatim>\<open>map[string]interface{}\<close> as an association list read with
  \<^const>\<open>map_of\<close>) and the struct \<^verbatim>\<open>UserPayload\<close> the producer puts there.
\<close>

datatype gvalue =
    VNil
  | VBool bool
  | VFloat64 "64 word"
  | VString string
  | VSlice "gvalue list"
  | VMap "(string \<times> gvalue) list"
  | VUserPayload string string

text \<open>\<^verbatim>\<open>type WorkerMessage struct { Action string; Payload interface{}; ID string }\<close>\<close>

record WorkerMessage =
  Action :: string
  Payload :: gvalue
  MsgID :: string

text \<open>\<^verbatim>\<open>type User struct { ID int64; Name, Email string; CreatedAt, UpdatedAt time.Time }\<close>\<close>

record User =
  ID :: int
  Name :: string
  Email :: string
  CreatedAt :: gotime
  UpdatedAt :: gotime

subsection \<open>Errors\<close>

text \<open>
  Errors are values.  \<^verbatim>\<open>fmt.Errorf("...: %w", err)\<close> is \<open>Wrap\<close>, an error made from a
  plain text is \<open>New\<close>; the errors of the libraries are kept by their origin.
\<close>

datatype db_error =
  ContextCanceled | StringDataRightTruncation | UniqueViolation | DriverFault string

datatype error =
    JSONError string
  | AMQPError string
  | DBError db_error
  | New string
  | Wrap string error

subsection \<open>The logger\<close>

datatype level = Info | Warn | Error

datatype field = Str string string | Int64 string int | Err error

datatype log_entry = Log level "field list" string

subsection \<open>The AMQP channel\<close>

text \<open>
  The calls the program issues to the channel, in order: \<^verbatim>\<open>Publish\<close> (exchange, routing
  key, mandatory, immediate, content type, body, timestamp), \<^verbatim>\<open>Consume\<close> (queue,
  consumer, autoAck, exclusive, noLocal, noWait), and on a delivery \<^verbatim>\<open>Ack(multiple)\<close>
  and \<^verbatim>\<open>Nack(multiple, requeue)\<close>, with the delivery's tag.
\<close>

datatype broker_call =
    Publish string string bool bool string "byte list" gotime
  | Consume string string bool bool bool bool
  | Ack "64 word" bool
  | Nack "64 word" bool bool

record Delivery =
  DeliveryTag :: "64 word"
  Body :: "byte list"

subsection \<open>The users table\<close>

text \<open>
  The table of \<^verbatim>\<open>migrations/001_create_users_table.sql\<close>: \<^verbatim>\<open>id BIGSERIAL PRIMARY KEY\<close>
  (a sequence that starts at 1 and advances by 1), \<^verbatim>\<open>name VARCHAR(255) NOT NULL\<close>,
  \<^verbatim>\<open>email VARCHAR(255) NOT NULL UNIQUE\<close>, and two columns
  \<^verbatim>\<open>TIMESTAMP WITH TIME ZONE\<close>.  \<open>rows\<close> are the rows in insertion order,
  \<open>last_value\<close> is the last value the sequence gave out, \<open>queries\<close> counts the
  statements sent.
\<close>

record database =
  rows :: "User list"
  last_value :: nat
  queries :: nat

subsection \<open>What the program does not own\<close>

text \<open>
  The configuration and the behaviour of the libraries and of the outside world are
  parameters: \<^verbatim>\<open>json.Unmarshal\<close> into a \<^verbatim>\<open>WorkerMessage\<close>, \<^verbatim>\<open>json.Marshal\<close>, the
  clock (the reading of the n-th call of \<^verbatim>\<open>time.Now()\<close>), the outcome of the n-th
  \<^verbatim>\<open>channel.Publish\<close>, the outcome of \<^verbatim>\<open>channel.Consume\<close>, and a fault of the n-th
  statement sent to the database, given the name and the email it carries (a lost
  connection, a text the server refuses for its encoding).
\<close>

record env =
  Exchange :: string
  QueueName :: string
  unmarshal :: "byte list \<Rightarrow> error + WorkerMessage"
  marshal :: "WorkerMessage \<Rightarrow> error + byte list"
  clock :: "nat \<Rightarrow> gotime"
  publish_result :: "nat \<Rightarrow> error option"
  consume_result :: "error option"
  db_fault :: "nat \<Rightarrow> string \<Rightarrow> string \<Rightarrow> db_error option"

subsection \<open>The state\<close>

text \<open>
  The state a worker acts on: its context (\<open>ctx_done\<close>: \<^verbatim>\<open>w.cancel()\<close> was called),
  whether its goroutine has returned, the table, the calls issued to the channel, the lines
  logged, and the number of clock readings so far.
\<close>

record world =
  ctx_done :: bool
  exited :: bool
  db :: database
  broker :: "broker_call list"
  logs :: "log_entry list"
  now_calls :: nat

definition log :: "level \<Rightarrow> field list \<Rightarrow> string \<Rightarrow> world \<Rightarrow> world" where
  "log l fs m w = w\<lparr>logs := logs w @ [Log l fs m]\<rparr>"

text \<open>\<^verbatim>\<open>time.Now()\<close>: the next reading of the clock.\<close>

definition Now :: "env \<Rightarrow> world \<Rightarrow> gotime \<times> world" where
  "Now E w = (clock E (now_calls w), w\<lparr>now_calls := Suc (now_calls w)\<rparr>)"

section \<open>The repository\<close>

text \<open>
  A Go string is a sequence of bytes, UTF-8 for a text; the column counts characters.  A
  byte \<^verbatim>\<open>10xxxxxx\<close> continues a character, every other byte starts one.
\<close>

definition utf8_length :: "string \<Rightarrow> nat" where
  "utf8_length s =
     length (filter (\<lambda>c. \<not> (128 \<le> (of_char c :: nat) \<and> (of_char c :: nat) < 192)) s)"

text \<open>
  What a column \<^verbatim>\<open>VARCHAR(255)\<close> keeps of a text assigned to it: the text when it has
  at most 255 characters; its first 255 characters when all the characters beyond are
  spaces; nothing (the statement is refused) otherwise.  \<open>k\<close> is the number of
  characters beyond the limit; when they are spaces they are the last \<open>k\<close> bytes.
\<close>

definition varchar255 :: "string \<Rightarrow> string option" where
  "varchar255 s =
     (let k = utf8_length s - 255
      in if k = 0 then Some s
         else if list_all (\<lambda>c. c = CHR '' '') (drop (length s - k) s)
              then Some (take (length s - k) s)
              else None)"

text \<open>
  What a column \<^verbatim>\<open>TIMESTAMP WITH TIME ZONE\<close> keeps of an instant: its microseconds;
  the nanoseconds below are dropped.
\<close>

definition timestamptz :: "gotime \<Rightarrow> gotime" where
  "timestamptz t = (t div 1000) * 1000"

text \<open>
  The statement of \<^verbatim>\<open>CreateUser\<close>,
  \<^verbatim>\<open>INSERT INTO users (name, email, created_at, updated_at) VALUES ($1, $2, $3, $4) RETURNING id, name, email, created_at, updated_at\<close>,
  run with the given context.  A cancelled context or a fault leaves the table as it is.
  Otherwise the sequence gives the next id and keeps its new value whatever follows; the
  row is refused when the name or the email does not fit its column, or when the email as
  the column keeps it is already in the table; when not, the row is appended and returned
  as the table holds it.
\<close>

definition insert_user ::
  "env \<Rightarrow> bool \<Rightarrow> database \<Rightarrow> string \<Rightarrow> string \<Rightarrow> gotime \<Rightarrow> gotime \<Rightarrow> (db_error + User) \<times> database" where
  "insert_user E cancelled d name email created updated =
     (if cancelled then (Inl ContextCanceled, d)
      else
        let d1 = d\<lparr>queries := Suc (queries d)\<rparr> in
        case db_fault E (queries d) name email of
          Some e \<Rightarrow> (Inl e, d1)
        | None \<Rightarrow>
            let d2 = d1\<lparr>last_value := Suc (last_value d1)\<rparr>
            in case (varchar255 name, varchar255 email) of
                 (Some name', Some email') \<Rightarrow>
                   let row = \<lparr>ID = int (last_value d2), Name = name', Email = email',
                              CreatedAt = timestamptz created, UpdatedAt = timestamptz updated\<rparr>
                   in if email' \<in> set (map Email (rows d)) then (Inl UniqueViolation, d2)
                      else (Inr row, d2\<lparr>rows := rows d2 @ [row]\<rparr>)
               | _ \<Rightarrow> (Inl StringDataRightTruncation, d2))"

text \<open>
  \<^verbatim>\<open>func (r *userRepository) CreateUser(ctx, user *User) (*User, error)\<close>.  Of the
  context the function takes whether it is done.  The record is passed by pointer, so the
  function returns three things: the Go result, the caller's record as the call leaves it,
  and the new state.  \<^verbatim>\<open>Scan\<close> writes the returned row
  into the record only when the statement gave a row.
\<close>

definition CreateUser ::
  "env \<Rightarrow> bool \<Rightarrow> User \<Rightarrow> world \<Rightarrow> (error + User) \<times> User \<times> world" where
  "CreateUser E ctx user w =
     (let (now, w1) = Now E w;
          user1 = user\<lparr>CreatedAt := now, UpdatedAt := now\<rparr>;
          (res, d') = insert_user E ctx (db w1)
                        (Name user1) (Email user1) (CreatedAt user1) (UpdatedAt user1);
          w2 = w1\<lparr>db := d'\<rparr>
      in case res of
           Inl e \<Rightarrow> (Inl (Wrap ''failed to create user'' (DBError e)), user1, w2)
         | Inr row \<Rightarrow>
             (let user2 = user1\<lparr>ID := ID row, Name := Name row, Email := Email row,
                                CreatedAt := CreatedAt row, UpdatedAt := UpdatedAt row\<rparr>
              in (Inr user2, user2, w2)))"

section \<open>The consumer\<close>

text \<open>\<^verbatim>\<open>func (w *ConsumerWorker) handleCreateUser(payload interface{}) error\<close>\<close>

definition handleCreateUser :: "env \<Rightarrow> gvalue \<Rightarrow> world \<Rightarrow> error option \<times> world" where
  "handleCreateUser E payload w =
     (case payload of
        VMap userPayload \<Rightarrow>
          (case map_of userPayload ''name'' of
             Some (VString name) \<Rightarrow>
               (case map_of userPayload ''email'' of
                  Some (VString email) \<Rightarrow>
                    (let user = \<lparr>ID = 0, Name = name, Email = email,
                                 CreatedAt = zero_time, UpdatedAt = zero_time\<rparr>;
                         (res, user', w1) = CreateUser E (ctx_done w) user w
                     in case res of
                          Inl e \<Rightarrow> (Some (Wrap ''failed to create user'' e), w1)
                        | Inr createdUser \<Rightarrow>
                            (None, log Info [Int64 ''user_id'' (ID createdUser),
                                             Str ''user_name'' (Name createdUser),
                                             Str ''user_email'' (Email createdUser)]
                                     ''Created user from message'' w1))
                | _ \<Rightarrow> (Some (New ''email not found in payload''), w))
           | _ \<Rightarrow> (Some (New ''name not found in payload''), w))
      | _ \<Rightarrow> (Some (New ''invalid payload type''), w))"

text \<open>\<^verbatim>\<open>func (w *ConsumerWorker) processMessage(msg amqp091.Delivery) error\<close>\<close>

definition processMessage :: "env \<Rightarrow> Delivery \<Rightarrow> world \<Rightarrow> error option \<times> world" where
  "processMessage E msg w =
     (case unmarshal E (Body msg) of
        Inl e \<Rightarrow> (Some (Wrap ''failed to unmarshal message'' e), w)
      | Inr message \<Rightarrow>
          (let w1 = log Info [Str ''message_id'' (MsgID message), Str ''action'' (Action message)]
                      ''Processing message'' w
           in if Action message = ''create_user'' then handleCreateUser E (Payload message) w1
              else (None, log Warn [Str ''action'' (Action message)] ''Unknown action'' w1)))"

text \<open>
  The body of the \<^verbatim>\<open>case msg, ok := <-msgChan\<close> branch of \<^verbatim>\<open>Start\<close> for a delivery
  (\<^verbatim>\<open>ok\<close> true): process, then \<^verbatim>\<open>msg.Nack(false, true)\<close> on an error and
  \<^verbatim>\<open>msg.Ack(false)\<close> otherwise.
\<close>

definition on_delivery :: "env \<Rightarrow> Delivery \<Rightarrow> world \<Rightarrow> world" where
  "on_delivery E msg w =
     (case processMessage E msg w of
        (Some err, w1) \<Rightarrow>
          (let w2 = log Error [Err err] ''Failed to process message'' w1
           in w2\<lparr>broker := broker w2 @ [Nack (DeliveryTag msg) False True]\<rparr>)
      | (None, w1) \<Rightarrow> w1\<lparr>broker := broker w1 @ [Ack (DeliveryTag msg) False]\<rparr>)"

text \<open>\<^verbatim>\<open>func (w *ConsumerWorker) Shutdown() error\<close>\<close>

definition consumer_Shutdown :: "world \<Rightarrow> error option \<times> world" where
  "consumer_Shutdown w = (None, (log Info [] ''Stopping consumer worker'' w)\<lparr>ctx_done := True\<rparr>)"

text \<open>
  \<^verbatim>\<open>ConsumeMessage\<close> subscribes (\<^verbatim>\<open>channel.Consume(queue, "", false, false, false, false, nil)\<close>);
  the library decides whether it succeeds.
\<close>

definition ConsumeMessage :: "env \<Rightarrow> world \<Rightarrow> error option \<times> world" where
  "ConsumeMessage E w =
     (consume_result E, w\<lparr>broker := broker w @ [Consume (QueueName E) [] False False False False]\<rparr>)"

text \<open>
  The goroutine of \<^verbatim>\<open>Start\<close> runs beside its callers.  What it meets is a schedule, a
  list of events in the order they happen: another goroutine calls \<^verbatim>\<open>Shutdown()\<close>, or
  the \<^verbatim>\<open>select\<close> finds the delivery channel ready, with the next delivery
  (\<open>Some msg\<close>) or closed (\<open>None\<close>).  When the context is done as well, \<^verbatim>\<open>select\<close>
  picks either ready case; the flag of \<open>Recv\<close> says whether it picks \<^verbatim>\<open>ctx.Done()\<close>.
  At the end of the schedule nothing more arrives: the goroutine stays blocked, or leaves
  through \<^verbatim>\<open>ctx.Done()\<close> when the context is done.
\<close>

datatype consumer_event = CallShutdown | Recv "Delivery option" bool

text \<open>Once the goroutine has returned, only the calls of \<^verbatim>\<open>Shutdown()\<close> still act.\<close>

fun consumer_gone :: "world \<Rightarrow> consumer_event list \<Rightarrow> world" where
  "consumer_gone w [] = w"
| "consumer_gone w (CallShutdown # es) = consumer_gone (snd (consumer_Shutdown w)) es"
| "consumer_gone w (Recv r p # es) = consumer_gone w es"

text \<open>The \<^verbatim>\<open>for { select { ... } }\<close> of \<^verbatim>\<open>ConsumerWorker.Start\<close>.\<close>

fun consumer_loop :: "env \<Rightarrow> world \<Rightarrow> consumer_event list \<Rightarrow> world" where
  "consumer_loop E w [] =
     (if ctx_done w then (log Info [] ''Consumer worker stopped'' w)\<lparr>exited := True\<rparr> else w)"
| "consumer_loop E w (CallShutdown # es) = consumer_loop E (snd (consumer_Shutdown w)) es"
| "consumer_loop E w (Recv r prefer_done # es) =
     (if ctx_done w \<and> prefer_done
      then consumer_gone ((log Info [] ''Consumer worker stopped'' w)\<lparr>exited := True\<rparr>) es
      else case r of
             None \<Rightarrow> consumer_gone ((log Info [] ''Message channel closed'' w)\<lparr>exited := True\<rparr>) es
           | Some msg \<Rightarrow> consumer_loop E (on_delivery E msg w) es)"

text \<open>
  \<^verbatim>\<open>func (w *ConsumerWorker) Start() error\<close>: it logs, starts the goroutine and
  returns nil.  \<open>consumer_goroutine\<close> is the goroutine: subscribe, then loop.
\<close>

definition consumer_Start :: "world \<Rightarrow> error option \<times> world" where
  "consumer_Start w = (None, log Info [] ''Starting consumer worker'' w)"

definition consumer_goroutine :: "env \<Rightarrow> world \<Rightarrow> consumer_event list \<Rightarrow> world" where
  "consumer_goroutine E w es =
     (case ConsumeMessage E w of
        (Some err, w1) \<Rightarrow>
          consumer_gone ((log Error [Err err] ''Failed to start consuming messages'' w1)\<lparr>exited := True\<rparr>) es
      | (None, w1) \<Rightarrow> consumer_loop E w1 es)"

text \<open>
  The deliveries the \<^verbatim>\<open>select\<close> hands to the loop body under a schedule, given whether
  the context is done at its start.
\<close>

fun received :: "bool \<Rightarrow> consumer_event list \<Rightarrow> Delivery list" where
  "received c [] = []"
| "received c (CallShutdown # es) = received True es"
| "received c (Recv r prefer_done # es) =
     (if c \<and> prefer_done then []
      else case r of None \<Rightarrow> [] | Some msg \<Rightarrow> msg # received c es)"

section \<open>The producer\<close>

text \<open>The verb \<^verbatim>\<open>%d\<close> of \<^verbatim>\<open>fmt.Sprintf\<close>: a decimal numeral, with a minus sign below zero.\<close>

definition digit :: "nat \<Rightarrow> char" where
  "digit d = ''0123456789'' ! d"

fun show_nat :: "nat \<Rightarrow> string" where
  "show_nat n =
     (if n < 10 then [digit n]
      else show_nat (n div 10) @ [digit (n mod 10)])"

declare show_nat.simps [simp del]

definition show_int :: "int \<Rightarrow> string" where
  "show_int i = (if i < 0 then CHR ''-'' # show_nat (nat (- i)) else show_nat (nat i))"

text \<open>
  \<^verbatim>\<open>func (r *RabbitMQService) PublishMessage(message []byte) error\<close>: one
  \<^verbatim>\<open>channel.Publish\<close> to the configured exchange with the queue name as routing key;
  the outcome is the library's, by the number of calls the channel has seen.
\<close>

definition PublishMessage :: "env \<Rightarrow> byte list \<Rightarrow> world \<Rightarrow> error option \<times> world" where
  "PublishMessage E message w =
     (let (ts, w1) = Now E w
      in (publish_result E (length (broker w1)),
          w1\<lparr>broker := broker w1 @
                 [Publish (Exchange E) (QueueName E) False False ''application/json'' message ts]\<rparr>))"

text \<open>
  The envelope \<^verbatim>\<open>produceMessage\<close> builds from three readings of the clock, in the order
  Go evaluates the fields.
\<close>

definition new_message :: "gotime \<Rightarrow> gotime \<Rightarrow> gotime \<Rightarrow> WorkerMessage" where
  "new_message t1 t2 t3 =
     \<lparr>Action = ''create_user'',
      Payload = VUserPayload (''User_'' @ show_int (Unix t1))
                             (''user_'' @ show_int (Unix t2) @ ''@example.com''),
      MsgID = ''msg_'' @ show_int (UnixNano t3)\<rparr>"

text \<open>\<^verbatim>\<open>func (w *ProducerWorker) produceMessage() error\<close>\<close>

definition produceMessage :: "env \<Rightarrow> world \<Rightarrow> error option \<times> world" where
  "produceMessage E w =
     (let (t1, w1) = Now E w;
          (t2, w2) = Now E w1;
          (t3, w3) = Now E w2;
          message = new_message t1 t2 t3
      in case marshal E message of
           Inl err \<Rightarrow> (Some (Wrap ''failed to marshal message'' err), w3)
         | Inr messageData \<Rightarrow>
             (case PublishMessage E messageData w3 of
                (Some err, w4) \<Rightarrow> (Some (Wrap ''failed to publish message'' err), w4)
              | (None, w4) \<Rightarrow>
                  (None, log Info [Str ''message_id'' (MsgID message)] ''Produced message'' w4)))"

text \<open>The \<^verbatim>\<open>case <-ticker.C\<close> branch of \<^verbatim>\<open>ProducerWorker.Start\<close>.\<close>

definition on_tick :: "env \<Rightarrow> world \<Rightarrow> world" where
  "on_tick E w =
     (case produceMessage E w of
        (Some err, w1) \<Rightarrow> log Error [Err err] ''Failed to produce message'' w1
      | (None, w1) \<Rightarrow> w1)"

text \<open>\<^verbatim>\<open>func (w *ProducerWorker) Shutdown() error\<close>\<close>

definition producer_Shutdown :: "world \<Rightarrow> error option \<times> world" where
  "producer_Shutdown w = (None, (log Info [] ''Stopping producer worker'' w)\<lparr>ctx_done := True\<rparr>)"

text \<open>
  The producer's schedule: \<^verbatim>\<open>Shutdown()\<close> is called, or the ticker fires (every five
  seconds); the flag says whether \<^verbatim>\<open>select\<close> picks \<^verbatim>\<open>ctx.Done()\<close> when that is
  ready too.
\<close>

datatype producer_event = StopCalled | Tick bool

fun producer_gone :: "world \<Rightarrow> producer_event list \<Rightarrow> world" where
  "producer_gone w [] = w"
| "producer_gone w (StopCalled # es) = producer_gone (snd (producer_Shutdown w)) es"
| "producer_gone w (Tick p # es) = producer_gone w es"

text \<open>The \<^verbatim>\<open>for { select { ... } }\<close> of \<^verbatim>\<open>ProducerWorker.Start\<close>.\<close>

fun producer_loop :: "env \<Rightarrow> world \<Rightarrow> producer_event list \<Rightarrow> world" where
  "producer_loop E w [] =
     (if ctx_done w then (log Info [] ''Producer worker stopped'' w)\<lparr>exited := True\<rparr> else w)"
| "producer_loop E w (StopCalled # es) = producer_loop E (snd (producer_Shutdown w)) es"
| "producer_loop E w (Tick prefer_done # es) =
     (if ctx_done w \<and> prefer_done
      then producer_gone ((log Info [] ''Producer worker stopped'' w)\<lparr>exited := True\<rparr>) es
      else producer_loop E (on_tick E w) es)"

definition producer_Start :: "world \<Rightarrow> error option \<times> world" where
  "producer_Start w = (None, log Info [] ''Starting producer worker'' w)"

text \<open>The ticks the \<^verbatim>\<open>select\<close> hands to the loop body under a schedule.\<close>

fun ticks :: "bool \<Rightarrow> producer_event list \<Rightarrow> nat" where
  "ticks c [] = 0"
| "ticks c (StopCalled # es) = ticks True es"
| "ticks c (Tick prefer_done # es) = (if c \<and> prefer_done then 0 else Suc (ticks c es))"

text \<open>
  The envelope a tick builds when the clock has been read \<open>n\<close> times before it.
\<close>

definition tick_message :: "env \<Rightarrow> nat \<Rightarrow> WorkerMessage" where
  "tick_message E n = new_message (clock E n) (clock E (Suc n)) (clock E (Suc (Suc n)))"

section \<open>A concrete run\<close>

text \<open>
  One environment and one initial state, to evaluate the functions on: the exchange and
  queue names are the defaults of \<^verbatim>\<open>config.go\<close>; the decoder knows four bodies (an
  envelope that creates the user Ada, one that creates a user whose name is 255 letters and
  a space, an envelope with another action, and a text that is no JSON); the encoder
  writes the producer's envelopes; the clock advances by a microsecond per reading; the
  first call of the channel fails when it is a publish.
\<close>

definition bytes :: "string \<Rightarrow> byte list" where
  "bytes s = map (\<lambda>c. of_nat (of_char c)) s"

definition ada_body :: "byte list" where
  \<open>ada_body = bytes ''{"action":"create_user","payload":{"name":"Ada","email":"ada@example.com"},"id":"msg_1"}''\<close>

definition ada_message :: WorkerMessage where
  "ada_message = \<lparr>Action = ''create_user'',
     Payload = VMap [(''name'', VString ''Ada''), (''email'', VString ''ada@example.com'')],
     MsgID = ''msg_1''\<rparr>"

definition long_name :: string where
  "long_name = replicate 255 CHR ''a'' @ '' ''"

definition long_body :: "byte list" where
  \<open>long_body = bytes (''{"action":"create_user","payload":{"name":"'' @ long_name
                       @ ''","email":"bob@example.com"},"id":"msg_3"}'')\<close>

definition long_message :: WorkerMessage where
  "long_message = \<lparr>Action = ''create_user'',
     Payload = VMap [(''name'', VString long_name), (''email'', VString ''bob@example.com'')],
     MsgID = ''msg_3''\<rparr>"

definition ping_body :: "byte list" where
  \<open>ping_body = bytes ''{"action":"ping","payload":null,"id":"msg_2"}''\<close>

definition ping_message :: WorkerMessage where
  "ping_message = \<lparr>Action = ''ping'', Payload = VNil, MsgID = ''msg_2''\<rparr>"

definition junk_body :: "byte list" where
  "junk_body = bytes ''not json''"

definition sample_unmarshal :: "byte list \<Rightarrow> error + WorkerMessage" where
  "sample_unmarshal b =
     (if b = ada_body then Inr ada_message
      else if b = long_body then Inr long_message
      else if b = ping_body then Inr ping_message
      else Inl (JSONError ''invalid character''))"

definition sample_enc :: "WorkerMessage \<Rightarrow> byte list" where
  \<open>sample_enc m =
     (case Payload m of
        VUserPayload name email \<Rightarrow>
          bytes (''{"action":"'' @ Action m @ ''","payload":{"name":"'' @ name
                 @ ''","email":"'' @ email @ ''"},"id":"'' @ MsgID m @ ''"}'')
      | _ \<Rightarrow> [])\<close>

definition sample_marshal :: "WorkerMessage \<Rightarrow> error + byte list" where
  "sample_marshal m =
     (case Payload m of
        VUserPayload name email \<Rightarrow> Inr (sample_enc m)
      | _ \<Rightarrow> Inl (JSONError ''unsupported value''))"

definition sample_env :: env where
  "sample_env =
     \<lparr>Exchange = ''worker_exchange'', QueueName = ''worker_queue'',
      unmarshal = sample_unmarshal, marshal = sample_marshal,
      clock = (\<lambda>n. 1700000000000000000 + 1000 * int n),
      publish_result = (\<lambda>n. if n = 0 then Some (AMQPError ''channel/connection is not open'') else None),
      consume_result = None,
      db_fault = (\<lambda>n name email. None)\<rparr>"

definition fresh_world :: world where
  "fresh_world =
     \<lparr>ctx_done = False, exited = False, db = \<lparr>rows = [], last_value = 0, queries = 0\<rparr>,
      broker = [], logs = [], now_calls = 0\<rparr>"

definition ada_row :: User where
  "ada_row = \<lparr>ID = 1, Name = ''Ada'', Email = ''ada@example.com'',
               CreatedAt = 1700000000000000000, UpdatedAt = 1700000000000000000\<rparr>"

definition ada_delivery :: Delivery where
  "ada_delivery = \<lparr>DeliveryTag = 1, Body = ada_body\<rparr>"

definition ada_redelivery :: Delivery where
  "ada_redelivery = \<lparr>DeliveryTag = 2, Body = ada_body\<rparr>"

definition ping_delivery :: Delivery where
  "ping_delivery = \<lparr>DeliveryTag = 3, Body = ping_body\<rparr>"

definition junk_delivery :: Delivery where
  "junk_delivery = \<lparr>DeliveryTag = 4, Body = junk_body\<rparr>"

definition long_delivery :: Delivery where
  "long_delivery = \<lparr>DeliveryTag = 5, Body = long_body\<rparr>"

text \<open>
  The same environment with a wall clock that is set back between two ticks: the four
  readings of the second tick repeat those of the first.
\<close>

definition setback_env :: env where
  "setback_env = sample_env\<lparr>clock := (\<lambda>n. 1700000000000000000 + 1000 * int (n mod 4))\<rparr>"

text \<open>The state after the first delivery of Ada's envelope: the table holds Ada.\<close>

definition ada_world :: world where
  "ada_world = on_delivery sample_env ada_delivery fresh_world"

text \<open>
  The call a tick issues to the channel when the clock has been read \<open>n\<close> times before it
  and \<open>enc\<close> is what \<^verbatim>\<open>json.Marshal\<close> returns.
\<close>

definition tick_publish :: "env \<Rightarrow> (WorkerMessage \<Rightarrow> byte list) \<Rightarrow> nat \<Rightarrow> broker_call" where
  "tick_publish E enc n =
     Publish (Exchange E) (QueueName E) False False ''application/json''
       (enc (tick_message E n)) (clock E (n + 3))"

section \<open>Facts shared by the proofs\<close>

lemma log_simps:
  "broker (log l fs m w) = broker w" "ctx_done (log l fs m w) = ctx_done w"
  "exited (log l fs m w) = exited w" "db (log l fs m w) = db w"
  "now_calls (log l fs m w) = now_calls w" "logs (log l fs m w) = logs w @ [Log l fs m]"
  by (simp_all add: log_def)

subsection \<open>What the consumer's functions leave alone\<close>

lemma CreateUser_frame:
  assumes "CreateUser E c u w = (r, u', w')"
  shows "broker w' = broker w" "ctx_done w' = ctx_done w" "exited w' = exited w" "logs w' = logs w"
  using assms
  by (auto simp: CreateUser_def Now_def Let_def split: prod.splits sum.splits)

lemma handleCreateUser_frame:
  assumes "handleCreateUser E p w = (r, w')"
  shows "broker w' = broker w" "ctx_done w' = ctx_done w" "exited w' = exited w"
  using assms
  by (auto simp: handleCreateUser_def Let_def log_simps
      split: gvalue.splits option.splits prod.splits sum.splits dest: CreateUser_frame)

lemma processMessage_frame:
  assumes "processMessage E msg w = (r, w')"
  shows "broker w' = broker w" "ctx_done w' = ctx_done w" "exited w' = exited w"
  using assms
  by (auto simp: processMessage_def Let_def log_simps
      split: sum.splits if_splits dest: handleCreateUser_frame)

lemma on_delivery_broker:
  "broker (on_delivery E msg w) =
     broker w @ [if fst (processMessage E msg w) = None then Ack (DeliveryTag msg) False
                 else Nack (DeliveryTag msg) False True]"
  by (auto simp: on_delivery_def Let_def log_simps split: prod.splits option.splits
      dest: processMessage_frame)

lemma on_delivery_ctx: "ctx_done (on_delivery E msg w) = ctx_done w"
  by (auto simp: on_delivery_def Let_def log_simps split: prod.splits option.splits
      dest: processMessage_frame)

lemma consumer_gone_frame:
  "broker (consumer_gone w es) = broker w" "db (consumer_gone w es) = db w"
  "exited (consumer_gone w es) = exited w"
  by (induction w es rule: consumer_gone.induct) (simp_all add: consumer_Shutdown_def log_simps)

lemma consumer_gone_quiet:
  "CallShutdown \<notin> set es \<Longrightarrow> consumer_gone w es = w"
  by (induction w es rule: consumer_gone.induct) simp_all

subsection \<open>The table\<close>

lemma varchar255_short: "utf8_length s \<le> 255 \<Longrightarrow> varchar255 s = Some s"
  by (simp add: varchar255_def)

lemma insert_user_Inr:
  assumes "fst (insert_user E c d name email created updated) = Inr row"
  shows "varchar255 name = Some (Name row)" "varchar255 email = Some (Email row)"
    "0 < ID row" "rows (snd (insert_user E c d name email created updated)) = rows d @ [row]"
    "\<not> c"
  using assms
  by (auto simp: insert_user_def Let_def split: if_splits option.splits prod.splits)

lemma insert_user_Inl:
  assumes "fst (insert_user E c d name email created updated) = Inl e"
  shows "rows (snd (insert_user E c d name email created updated)) = rows d"
  using assms
  by (auto simp: insert_user_def Let_def split: if_splits option.splits prod.splits)

subsection \<open>The sample run\<close>

lemma sample_bodies:
  "unmarshal sample_env (Body ada_delivery) = Inr ada_message"
  "unmarshal sample_env (Body ada_redelivery) = Inr ada_message"
  "unmarshal sample_env (Body ping_delivery) = Inr ping_message"
  "unmarshal sample_env (Body junk_delivery) = Inl (JSONError ''invalid character'')"
  "unmarshal sample_env (Body long_delivery) = Inr long_message"
  by (simp_all add: sample_env_def sample_unmarshal_def ada_delivery_def ada_redelivery_def
      ping_delivery_def junk_delivery_def long_delivery_def ada_body_def ping_body_def
      junk_body_def long_body_def bytes_def)

lemma short_texts:
  "varchar255 ''Ada'' = Some ''Ada''" "varchar255 ''ada@example.com'' = Some ''ada@example.com''"
  by (simp_all add: varchar255_def utf8_length_def)

lemma ada_world_eval:
  "ada_world =
     \<lparr>ctx_done = False, exited = False,
      db = \<lparr>rows = [ada_row], last_value = 1, queries = 1\<rparr>,
      broker = [Ack 1 False],
      logs = [Log Info [Str ''message_id'' ''msg_1'', Str ''action'' ''create_user'']
                ''Processing message'',
              Log Info [Int64 ''user_id'' 1, Str ''user_name'' ''Ada'',
                        Str ''user_email'' ''ada@example.com'']
                ''Created user from message''],
      now_calls = 1\<rparr>"
  by code_simp

section \<open>One delivery\<close>

text \<open>
  C1, as the code has it.  A delivery whose body decodes to an envelope with action
  \<^verbatim>\<open>create_user\<close> and a payload object with string fields \<^verbatim>\<open>name\<close> and
  \<^verbatim>\<open>email\<close>, and whose insert succeeds, adds exactly one row to the table, with a
  positive identifier and with the name and the email as their \<^verbatim>\<open>VARCHAR(255)\<close> columns
  keep them: the payload's own when they have at most 255 characters, and cut to 255
  characters when only spaces exceed.  The only call issued to the channel is one
  \<^verbatim>\<open>Ack(false)\<close> for the delivery: no \<^verbatim>\<open>Nack\<close>.
\<close>

theorem create_user_delivery_acked:
  assumes "unmarshal E (Body msg) = Inr message"
    and "Action message = ''create_user''"
    and "Payload message = VMap userPayload"
    and "map_of userPayload ''name'' = Some (VString name)"
    and "map_of userPayload ''email'' = Some (VString email)"
    and "fst (insert_user E (ctx_done w) (db w) name email
                (clock E (now_calls w)) (clock E (now_calls w))) = Inr row"
  shows "rows (db (on_delivery E msg w)) = rows (db w) @ [row]
         \<and> varchar255 name = Some (Name row) \<and> varchar255 email = Some (Email row)
         \<and> (utf8_length name \<le> 255 \<longrightarrow> Name row = name)
         \<and> (utf8_length email \<le> 255 \<longrightarrow> Email row = email)
         \<and> 0 < ID row
         \<and> broker (on_delivery E msg w) = broker w @ [Ack (DeliveryTag msg) False]"
proof -
  let ?ins = "insert_user E (ctx_done w) (db w) name email
                (clock E (now_calls w)) (clock E (now_calls w))"
  note ins = insert_user_Inr [OF assms(6)]
  obtain d' where i: "?ins = (Inr row, d')"
    using assms(6) by (cases ?ins) simp
  with ins(4) have d': "rows d' = rows (db w) @ [row]"
    by simp
  have "on_delivery E msg w =
          (log Info [Int64 ''user_id'' (ID row), Str ''user_name'' (Name row),
                     Str ''user_email'' (Email row)] ''Created user from message''
             ((log Info [Str ''message_id'' (MsgID message), Str ''action'' (Action message)]
                 ''Processing message'' w)
                \<lparr>now_calls := Suc (now_calls w), db := d'\<rparr>))
          \<lparr>broker := broker w @ [Ack (DeliveryTag msg) False]\<rparr>"
    using assms(1-5) i
    by (simp add: on_delivery_def processMessage_def handleCreateUser_def CreateUser_def Now_def
        Let_def log_def)
  with d' have "rows (db (on_delivery E msg w)) = rows (db w) @ [row]"
    "broker (on_delivery E msg w) = broker w @ [Ack (DeliveryTag msg) False]"
    by (simp_all add: log_def)
  moreover have "utf8_length name \<le> 255 \<longrightarrow> Name row = name"
    using ins(1) varchar255_short [of name] by auto
  moreover have "utf8_length email \<le> 255 \<longrightarrow> Email row = email"
    using ins(2) varchar255_short [of email] by auto
  ultimately show ?thesis
    using ins(1-3) by blast
qed

theorem create_user_delivery_acked_witness:
  "rows (db (on_delivery sample_env ada_delivery fresh_world)) = rows (db fresh_world) @ [ada_row]
   \<and> Name ada_row = ''Ada'' \<and> Email ada_row = ''ada@example.com'' \<and> 0 < ID ada_row
   \<and> broker (on_delivery sample_env ada_delivery fresh_world)
       = broker fresh_world @ [Ack (DeliveryTag ada_delivery) False]"
proof -
  have "unmarshal sample_env (Body ada_delivery) = Inr ada_message"
    by (rule sample_bodies)
  moreover have "Action ada_message = ''create_user''"
    by (simp add: ada_message_def)
  moreover have
    "Payload ada_message = VMap [(''name'', VString ''Ada''), (''email'', VString ''ada@example.com'')]"
    by (simp add: ada_message_def)
  moreover have
    "map_of [(''name'', VString ''Ada''), (''email'', VString ''ada@example.com'')] ''name''
       = Some (VString ''Ada'')"
    by simp
  moreover have
    "map_of [(''name'', VString ''Ada''), (''email'', VString ''ada@example.com'')] ''email''
       = Some (VString ''ada@example.com'')"
    by simp
  moreover have
    "fst (insert_user sample_env (ctx_done fresh_world) (db fresh_world) ''Ada''
            ''ada@example.com'' (clock sample_env (now_calls fresh_world))
            (clock sample_env (now_calls fresh_world))) = Inr ada_row"
    by (simp add: insert_user_def short_texts timestamptz_def sample_env_def fresh_world_def
        ada_row_def Let_def)
  ultimately have
    "rows (db (on_delivery sample_env ada_delivery fresh_world)) = rows (db fresh_world) @ [ada_row]
     \<and> varchar255 ''Ada'' = Some (Name ada_row)
     \<and> varchar255 ''ada@example.com'' = Some (Email ada_row)
     \<and> (utf8_length ''Ada'' \<le> 255 \<longrightarrow> Name ada_row = ''Ada'')
     \<and> (utf8_length ''ada@example.com'' \<le> 255 \<longrightarrow> Email ada_row = ''ada@example.com'')
     \<and> 0 < ID ada_row
     \<and> broker (on_delivery sample_env ada_delivery fresh_world)
         = broker fresh_world @ [Ack (DeliveryTag ada_delivery) False]"
    by (rule create_user_delivery_acked)
  then show ?thesis
    by (simp add: utf8_length_def)
qed

text \<open>
  C1, as stated, fails.  The payload's name is 255 letters and a space.  The insert
  succeeds, one row is added and the delivery is acknowledged, but the row's name is the
  255 letters: not the payload's name.
\<close>

theorem payload_name_cut_by_column:
  "unmarshal sample_env (Body long_delivery) = Inr long_message
   \<and> Action long_message = ''create_user''
   \<and> Payload long_message
       = VMap [(''name'', VString long_name), (''email'', VString ''bob@example.com'')]
   \<and> rows (db (on_delivery sample_env long_delivery fresh_world))
       = [\<lparr>ID = 1, Name = replicate 255 CHR ''a'', Email = ''bob@example.com'',
           CreatedAt = 1700000000000000000, UpdatedAt = 1700000000000000000\<rparr>]
   \<and> broker (on_delivery sample_env long_delivery fresh_world) = [Ack 5 False]
   \<and> replicate 255 CHR ''a'' \<noteq> long_name"
  by code_simp

text \<open>
  C2, as the code has it.  When the insert of the \<^verbatim>\<open>create_user\<close> handler is refused
  for a duplicate email, the handler returns the wrapped error like any other failure of
  the insert: the loop logs it at error level and issues one \<^verbatim>\<open>Nack(false, true)\<close>
  (reject with requeue) and no \<^verbatim>\<open>Ack\<close>; the rows of the table are unchanged.
\<close>

theorem duplicate_email_delivery_requeued:
  assumes "unmarshal E (Body msg) = Inr message"
    and "Action message = ''create_user''"
    and "Payload message = VMap userPayload"
    and "map_of userPayload ''name'' = Some (VString name)"
    and "map_of userPayload ''email'' = Some (VString email)"
    and "fst (insert_user E (ctx_done w) (db w) name email
                (clock E (now_calls w)) (clock E (now_calls w))) = Inl UniqueViolation"
  shows "broker (on_delivery E msg w) = broker w @ [Nack (DeliveryTag msg) False True]
         \<and> rows (db (on_delivery E msg w)) = rows (db w)
         \<and> last (logs (on_delivery E msg w)) =
             Log Error [Err (Wrap ''failed to create user''
                          (Wrap ''failed to create user'' (DBError UniqueViolation)))]
               ''Failed to process message''"
  using assms
  by (auto simp: on_delivery_def processMessage_def handleCreateUser_def CreateUser_def Now_def
      insert_user_def Let_def log_simps split: if_splits option.splits prod.splits sum.splits)

theorem duplicate_email_delivery_requeued_witness:
  "broker (on_delivery sample_env ada_redelivery ada_world)
     = broker ada_world @ [Nack (DeliveryTag ada_redelivery) False True]
   \<and> rows (db (on_delivery sample_env ada_redelivery ada_world)) = rows (db ada_world)
   \<and> last (logs (on_delivery sample_env ada_redelivery ada_world)) =
       Log Error [Err (Wrap ''failed to create user''
                    (Wrap ''failed to create user'' (DBError UniqueViolation)))]
         ''Failed to process message''"
proof (rule duplicate_email_delivery_requeued [where message = ada_message
      and userPayload = "[(''name'', VString ''Ada''), (''email'', VString ''ada@example.com'')]"
      and name = "''Ada''" and email = "''ada@example.com''"])
  show "unmarshal sample_env (Body ada_redelivery) = Inr ada_message"
    by (rule sample_bodies)
  show "Action ada_message = ''create_user''"
    by (simp add: ada_message_def)
  show "Payload ada_message = VMap [(''name'', VString ''Ada''), (''email'', VString ''ada@example.com'')]"
    by (simp add: ada_message_def)
  show "map_of [(''name'', VString ''Ada''), (''email'', VString ''ada@example.com'')] ''name''
          = Some (VString ''Ada'')"
    by simp
  show "map_of [(''name'', VString ''Ada''), (''email'', VString ''ada@example.com'')] ''email''
          = Some (VString ''ada@example.com'')"
    by simp
  show "fst (insert_user sample_env (ctx_done ada_world) (db ada_world) ''Ada''
               ''ada@example.com'' (clock sample_env (now_calls ada_world))
               (clock sample_env (now_calls ada_world))) = Inl UniqueViolation"
    by (simp add: ada_world_eval insert_user_def short_texts sample_env_def ada_row_def Let_def)
qed

text \<open>
  C2, as stated, fails.  The envelope of the scenario is delivered a second time (tag 2)
  after its first delivery created Ada: the insert is refused for the duplicate email, and
  the delivery is not acknowledged but rejected with requeue.
\<close>

theorem duplicate_email_not_acknowledged:
  "fst (insert_user sample_env (ctx_done ada_world) (db ada_world) ''Ada'' ''ada@example.com''
          (clock sample_env (now_calls ada_world)) (clock sample_env (now_calls ada_world)))
     = Inl UniqueViolation
   \<and> broker (on_delivery sample_env ada_redelivery ada_world) = [Ack 1 False, Nack 2 False True]
   \<and> broker (on_delivery sample_env ada_redelivery ada_world) \<noteq> broker ada_world @ [Ack 2 False]"
  by code_simp

text \<open>
  C4.  A delivery whose body does not decode as an envelope gets exactly one
  \<^verbatim>\<open>Nack(false, true)\<close> (reject, requeue true), and the database is left as it was.
\<close>

theorem undecodable_delivery_requeued:
  assumes "unmarshal E (Body msg) = Inl e"
  shows "broker (on_delivery E msg w) = broker w @ [Nack (DeliveryTag msg) False True]
         \<and> db (on_delivery E msg w) = db w"
  using assms by (simp add: on_delivery_def processMessage_def Let_def log_simps)

theorem undecodable_delivery_requeued_witness:
  "broker (on_delivery sample_env junk_delivery ada_world)
     = broker ada_world @ [Nack (DeliveryTag junk_delivery) False True]
   \<and> db (on_delivery sample_env junk_delivery ada_world) = db ada_world"
  by (rule undecodable_delivery_requeued [OF sample_bodies(4)])

text \<open>
  C5.  A delivery whose envelope has an action other than \<^verbatim>\<open>create_user\<close> gets exactly
  one \<^verbatim>\<open>Ack(false)\<close> and no \<^verbatim>\<open>Nack\<close>, and the database is left as it was.
\<close>

theorem unknown_action_delivery_acked:
  assumes "unmarshal E (Body msg) = Inr message"
    and "Action message \<noteq> ''create_user''"
  shows "broker (on_delivery E msg w) = broker w @ [Ack (DeliveryTag msg) False]
         \<and> db (on_delivery E msg w) = db w"
  using assms by (simp add: on_delivery_def processMessage_def Let_def log_simps)

theorem unknown_action_delivery_acked_witness:
  "broker (on_delivery sample_env ping_delivery ada_world)
     = broker ada_world @ [Ack (DeliveryTag ping_delivery) False]
   \<and> db (on_delivery sample_env ping_delivery ada_world) = db ada_world"
proof (rule unknown_action_delivery_acked [OF sample_bodies(3)])
  show "Action ping_message \<noteq> ''create_user''"
    by (simp add: ping_message_def)
qed

section \<open>The consumer loop\<close>

text \<open>
  C3.  Under every schedule, the calls the consumer loop issues to the channel are, in
  order, one per delivery the \<^verbatim>\<open>select\<close> handed to it: for each received delivery
  either \<^verbatim>\<open>Ack(false)\<close> or \<^verbatim>\<open>Nack(false, true)\<close> with that delivery's tag, never
  both and never neither.
\<close>

theorem one_ack_or_nack_per_delivery:
  "\<exists>calls. broker (consumer_loop E w es) = broker w @ calls
     \<and> list_all2 (\<lambda>c msg. c = Ack (DeliveryTag msg) False \<or> c = Nack (DeliveryTag msg) False True)
          calls (received (ctx_done w) es)"
proof (induction es arbitrary: w)
  case Nil
  then show ?case by (simp add: log_simps)
next
  case (Cons e es)
  show ?case
  proof (cases e)
    case CallShutdown
    with Cons [of "snd (consumer_Shutdown w)"] show ?thesis
      by (simp add: consumer_Shutdown_def log_simps)
  next
    case (Recv r p)
    show ?thesis
    proof (cases "ctx_done w \<and> p")
      case True
      with Recv show ?thesis by (simp add: consumer_gone_frame log_simps)
    next
      case False
      show ?thesis
      proof (cases r)
        case None
        with Recv False show ?thesis by (simp add: consumer_gone_frame log_simps)
      next
        case (Some msg)
        from Cons [of "on_delivery E msg w"] obtain calls where
          c: "broker (consumer_loop E (on_delivery E msg w) es) = broker (on_delivery E msg w) @ calls"
             "list_all2 (\<lambda>c msg. c = Ack (DeliveryTag msg) False \<or> c = Nack (DeliveryTag msg) False True)
                 calls (received (ctx_done w) es)"
          by (auto simp: on_delivery_ctx)
        let ?a = "if fst (processMessage E msg w) = None then Ack (DeliveryTag msg) False
                  else Nack (DeliveryTag msg) False True"
        have "broker (consumer_loop E w (e # es)) = broker w @ (?a # calls)"
          using Recv False Some c(1) by (auto simp: on_delivery_broker)
        moreover have
          "list_all2 (\<lambda>c msg. c = Ack (DeliveryTag msg) False \<or> c = Nack (DeliveryTag msg) False True)
             (?a # calls) (received (ctx_done w) (e # es))"
          using Recv False Some c(2) by auto
        ultimately show ?thesis by blast
      qed
    qed
  qed
qed

theorem one_ack_or_nack_per_delivery_witness:
  "length (broker (consumer_loop sample_env fresh_world
      [Recv (Some ada_delivery) False, Recv (Some ada_redelivery) False, CallShutdown,
       Recv (Some ping_delivery) False, Recv (Some junk_delivery) True,
       Recv (Some junk_delivery) False])) = 3"
proof -
  let ?es = "[Recv (Some ada_delivery) False, Recv (Some ada_redelivery) False, CallShutdown,
       Recv (Some ping_delivery) False, Recv (Some junk_delivery) True,
       Recv (Some junk_delivery) False]"
  have r: "received (ctx_done fresh_world) ?es = [ada_delivery, ada_redelivery, ping_delivery]"
    by (simp add: fresh_world_def)
  from one_ack_or_nack_per_delivery [of sample_env fresh_world ?es] obtain calls where
    "broker (consumer_loop sample_env fresh_world ?es) = broker fresh_world @ calls"
    "list_all2 (\<lambda>c msg. c = Ack (DeliveryTag msg) False \<or> c = Nack (DeliveryTag msg) False True)
       calls (received (ctx_done fresh_world) ?es)"
    by blast
  then show ?thesis
    unfolding r by (auto simp: fresh_world_def dest: list_all2_lengthD)
qed

text \<open>
  C10.  When the delivery channel is found closed while the context is not done, the loop
  returns for good: whatever the rest of the schedule, it issues no further call to the
  channel (no \<^verbatim>\<open>Ack\<close>, no \<^verbatim>\<open>Nack\<close>, no second \<^verbatim>\<open>Consume\<close>) and leaves the
  database alone; and when \<^verbatim>\<open>Shutdown\<close> is never called, all that changes is one line
  logged at info level, so the context is still not done.  \<^verbatim>\<open>Start\<close> has returned nil,
  and a goroutine that subscribed and found the channel closed has called \<^verbatim>\<open>Consume\<close>
  once and nothing else.
\<close>

theorem closed_channel_ends_consumer:
  assumes "\<not> ctx_done w"
  shows "broker (consumer_loop E w (Recv None p # es)) = broker w
         \<and> db (consumer_loop E w (Recv None p # es)) = db w
         \<and> exited (consumer_loop E w (Recv None p # es))
         \<and> (CallShutdown \<notin> set es \<longrightarrow>
              consumer_loop E w (Recv None p # es) =
                w\<lparr>exited := True, logs := logs w @ [Log Info [] ''Message channel closed'']\<rparr>)
         \<and> fst (consumer_Start v) = None
         \<and> (consume_result E = None \<longrightarrow>
              broker (consumer_goroutine E w (Recv None p # es))
                = broker w @ [Consume (QueueName E) [] False False False False])"
  using assms
  by (simp add: consumer_gone_frame consumer_gone_quiet log_def consumer_Start_def
      consumer_goroutine_def ConsumeMessage_def)

theorem closed_channel_ends_consumer_witness:
  "broker (consumer_loop sample_env ada_world [Recv None False, Recv (Some ping_delivery) False])
     = [Ack 1 False]
   \<and> consumer_loop sample_env ada_world [Recv None False, Recv (Some ping_delivery) False]
     = ada_world\<lparr>exited := True, logs := logs ada_world @ [Log Info [] ''Message channel closed'']\<rparr>
   \<and> \<not> ctx_done (consumer_loop sample_env ada_world [Recv None False, Recv (Some ping_delivery) False])"
proof -
  have "\<not> ctx_done ada_world" by (simp add: ada_world_eval)
  from closed_channel_ends_consumer [OF this, of sample_env False
      "[Recv (Some ping_delivery) False]" fresh_world]
  show ?thesis by (simp add: ada_world_eval)
qed

section \<open>The repository on failure\<close>

text \<open>
  C9.  \<^verbatim>\<open>CreateUser\<close> writes the clock's reading into \<^verbatim>\<open>CreatedAt\<close> and
  \<^verbatim>\<open>UpdatedAt\<close> of the caller's record before the insert.  When it returns an error,
  the caller's record is the input with both fields set to that reading (so they are
  equal), and nothing else changed; no row was added.
\<close>

theorem CreateUser_error_keeps_new_timestamps:
  assumes "CreateUser E ctx user w = (Inl e, user', w')"
  shows "user' = user\<lparr>CreatedAt := clock E (now_calls w), UpdatedAt := clock E (now_calls w)\<rparr>
         \<and> CreatedAt user' = UpdatedAt user' \<and> rows (db w') = rows (db w)"
  using assms
  by (auto simp: CreateUser_def Now_def insert_user_def Let_def
      split: if_splits option.splits prod.splits sum.splits)

theorem CreateUser_error_keeps_new_timestamps_witness:
  "fst (CreateUser sample_env False
         \<lparr>ID = 0, Name = ''Ada'', Email = ''ada@example.com'',
          CreatedAt = zero_time, UpdatedAt = zero_time\<rparr> ada_world)
     = Inl (Wrap ''failed to create user'' (DBError UniqueViolation))
   \<and> fst (snd (CreateUser sample_env False
         \<lparr>ID = 0, Name = ''Ada'', Email = ''ada@example.com'',
          CreatedAt = zero_time, UpdatedAt = zero_time\<rparr> ada_world))
     = \<lparr>ID = 0, Name = ''Ada'', Email = ''ada@example.com'',
        CreatedAt = 1700000000000001000, UpdatedAt = 1700000000000001000\<rparr>"
proof -
  let ?u = "\<lparr>ID = 0, Name = ''Ada'', Email = ''ada@example.com'',
             CreatedAt = zero_time, UpdatedAt = zero_time\<rparr>"
  have e: "fst (CreateUser sample_env False ?u ada_world)
             = Inl (Wrap ''failed to create user'' (DBError UniqueViolation))"
    by (simp add: ada_world_eval CreateUser_def Now_def insert_user_def short_texts
        sample_env_def ada_row_def Let_def)
  then have "CreateUser sample_env False ?u ada_world
               = (Inl (Wrap ''failed to create user'' (DBError UniqueViolation)),
                  fst (snd (CreateUser sample_env False ?u ada_world)),
                  snd (snd (CreateUser sample_env False ?u ada_world)))"
    by (metis prod.collapse)
  from CreateUser_error_keeps_new_timestamps [OF this]
  have "fst (snd (CreateUser sample_env False ?u ada_world))
          = ?u\<lparr>CreatedAt := clock sample_env (now_calls ada_world),
                UpdatedAt := clock sample_env (now_calls ada_world)\<rparr>"
    by blast
  with e show ?thesis by (simp add: ada_world_eval sample_env_def)
qed

section \<open>The producer loop\<close>

subsection \<open>Decimal numerals are injective\<close>

lemma digit_inj:
  assumes "a < 10" "b < 10" "digit a = digit b"
  shows "a = b"
proof -
  have below_ten: "\<And>n::nat. n < 10 \<Longrightarrow> n \<in> {0, 1, 2, 3, 4, 5, 6, 7, 8, 9}"
    by auto
  from below_ten [OF assms(1)] below_ten [OF assms(2)] assms(3) show ?thesis
    by (auto simp: digit_def)
qed

lemma digit_not_minus: "d < 10 \<Longrightarrow> digit d \<noteq> CHR ''-''"
proof -
  assume "d < 10"
  then have "d \<in> {0, 1, 2, 3, 4, 5, 6, 7, 8, 9}" by auto
  then show ?thesis by (auto simp: digit_def)
qed

lemma show_nat_nonempty: "show_nat n \<noteq> []"
  by (subst show_nat.simps) simp

lemma show_nat_no_minus: "CHR ''-'' \<notin> set (show_nat n)"
proof (induction n rule: show_nat.induct)
  case (1 n)
  show ?case
  proof (cases "n < 10")
    case True
    then show ?thesis using digit_not_minus [of n] by (subst show_nat.simps) auto
  next
    case False
    with 1 digit_not_minus [of "n mod 10"] show ?thesis
      by (subst show_nat.simps) auto
  qed
qed

lemma show_nat_inj: "show_nat m = show_nat n \<Longrightarrow> m = n"
proof (induction m arbitrary: n rule: show_nat.induct)
  case (1 m)
  show ?case
  proof (cases "m < 10")
    case m: True
    show ?thesis
    proof (cases "n < 10")
      case True
      with m "1.prems" show ?thesis
        by (auto simp: show_nat.simps [of m] show_nat.simps [of n] dest: digit_inj)
    next
      case False
      with m "1.prems" show_nat_nonempty [of "n div 10"] show ?thesis
        by (auto simp: show_nat.simps [of m] show_nat.simps [of n] Cons_eq_append_conv)
    qed
  next
    case m: False
    show ?thesis
    proof (cases "n < 10")
      case True
      with m "1.prems" show_nat_nonempty [of "m div 10"] show ?thesis
        by (auto simp: show_nat.simps [of m] show_nat.simps [of n] append_eq_Cons_conv)
    next
      case False
      with m "1.prems" have eq: "show_nat (m div 10) = show_nat (n div 10)"
        "digit (m mod 10) = digit (n mod 10)"
        by (auto simp: show_nat.simps [of m] show_nat.simps [of n])
      from "1.IH" [OF m eq(1)] have "m div 10 = n div 10" .
      moreover have "m mod 10 = n mod 10"
        using digit_inj [of "m mod 10" "n mod 10"] eq(2) by simp
      ultimately show ?thesis by (metis div_mult_mod_eq)
    qed
  qed
qed

lemma show_int_inj: "show_int a = show_int b \<Longrightarrow> a = b"
proof -
  assume eq: "show_int a = show_int b"
  have hd_nat: "\<And>n. hd (show_nat n) \<noteq> CHR ''-''"
    using show_nat_no_minus show_nat_nonempty by (metis hd_in_set)
  show ?thesis
  proof (cases "a < 0")
    case a: True
    show ?thesis
    proof (cases "b < 0")
      case True
      with a eq have "nat (- a) = nat (- b)" by (auto simp: show_int_def dest: show_nat_inj)
      with a True show ?thesis by simp
    next
      case False
      with a eq have "show_nat (nat b) = CHR ''-'' # show_nat (nat (- a))"
        by (simp add: show_int_def)
      then have "hd (show_nat (nat b)) = CHR ''-''" by simp
      with hd_nat show ?thesis by blast
    qed
  next
    case a: False
    show ?thesis
    proof (cases "b < 0")
      case True
      with a eq have "show_nat (nat a) = CHR ''-'' # show_nat (nat (- b))"
        by (simp add: show_int_def)
      then have "hd (show_nat (nat a)) = CHR ''-''" by simp
      with hd_nat show ?thesis by blast
    next
      case False
      with a eq have "nat a = nat b" by (auto simp: show_int_def dest: show_nat_inj)
      with a False show ?thesis by simp
    qed
  qed
qed

lemma int64_in_range:
  "- 9223372036854775808 \<le> i \<Longrightarrow> i < 9223372036854775808 \<Longrightarrow> int64 i = i"
  by (simp add: int64_def)

lemma tick_message_id_fresh:
  "MsgID (tick_message E m) = MsgID (tick_message E n)
     \<longleftrightarrow> UnixNano (clock E (m + 2)) = UnixNano (clock E (n + 2))"
  by (auto simp: tick_message_def new_message_def dest: show_int_inj)

lemma tick_message_ids_distinct:
  assumes "- 9223372036854775808 \<le> clock E (m + 2)" "clock E (m + 2) < 9223372036854775808"
    and "- 9223372036854775808 \<le> clock E (n + 2)" "clock E (n + 2) < 9223372036854775808"
    and "clock E (m + 2) \<noteq> clock E (n + 2)"
  shows "MsgID (tick_message E m) \<noteq> MsgID (tick_message E n)"
proof
  assume "MsgID (tick_message E m) = MsgID (tick_message E n)"
  then have "UnixNano (clock E (m + 2)) = UnixNano (clock E (n + 2))"
    by (simp add: tick_message_id_fresh)
  with assms(1-4) have "clock E (m + 2) = clock E (n + 2)"
    by (simp add: UnixNano_def int64_in_range)
  with assms(5) show False by simp
qed

subsection \<open>One tick\<close>

lemma produceMessage_marshal_ok:
  assumes "marshal E (tick_message E (now_calls w)) = Inr data"
  shows "produceMessage E w =
    (let w4 = w\<lparr>now_calls := now_calls w + 4,
                 broker := broker w @ [Publish (Exchange E) (QueueName E) False False
                    ''application/json'' data (clock E (now_calls w + 3))]\<rparr>
     in case publish_result E (length (broker w)) of
          Some err \<Rightarrow> (Some (Wrap ''failed to publish message'' err), w4)
        | None \<Rightarrow> (None, log Info [Str ''message_id'' (MsgID (tick_message E (now_calls w)))]
                           ''Produced message'' w4))"
  using assms
  by (simp add: produceMessage_def PublishMessage_def Now_def Let_def tick_message_def
      eval_nat_numeral split: option.splits)

lemma on_tick_marshal_ok:
  assumes "marshal E (tick_message E (now_calls w)) = Inr data"
  shows "broker (on_tick E w) = broker w @ [Publish (Exchange E) (QueueName E) False False
            ''application/json'' data (clock E (now_calls w + 3))]"
    and "now_calls (on_tick E w) = now_calls w + 4"
    and "logs (on_tick E w) = logs w @
           [case publish_result E (length (broker w)) of
              Some err \<Rightarrow> Log Error [Err (Wrap ''failed to publish message'' err)]
                            ''Failed to produce message''
            | None \<Rightarrow> Log Info [Str ''message_id'' (MsgID (tick_message E (now_calls w)))]
                            ''Produced message'']"
  by (simp_all add: on_tick_def produceMessage_marshal_ok [OF assms] Let_def log_simps
      split: option.splits)

lemma on_tick_ctx: "ctx_done (on_tick E w) = ctx_done w"
  by (simp add: on_tick_def produceMessage_def PublishMessage_def Now_def Let_def log_simps
      split: sum.splits option.splits prod.splits)

subsection \<open>The whole schedule\<close>

lemma producer_gone_frame:
  "broker (producer_gone w es) = broker w" "set (logs w) \<subseteq> set (logs (producer_gone w es))"
  by (induction w es rule: producer_gone.induct) (auto simp: producer_Shutdown_def log_simps)

lemma producer_loop_logs_grow:
  "set (logs w) \<subseteq> set (logs (producer_loop E w es))"
proof (induction E w es rule: producer_loop.induct)
  case (1 E w)
  then show ?case by (auto simp: log_simps)
next
  case (2 E w es)
  then show ?case by (auto simp: producer_Shutdown_def log_simps)
next
  case (3 E w prefer_done es)
  have "set (logs w) \<subseteq> set (logs (on_tick E w))"
    by (auto simp: on_tick_def produceMessage_def PublishMessage_def Now_def Let_def log_simps
        split: sum.splits option.splits prod.splits)
  with 3 show ?case
    using producer_gone_frame(2) [of "(log Info [] ''Producer worker stopped'' w)\<lparr>exited := True\<rparr>" es]
    by (auto simp: log_simps)
qed

lemma producer_loop_broker:
  assumes enc: "\<And>t1 t2 t3. marshal E (new_message t1 t2 t3) = Inr (enc (new_message t1 t2 t3))"
  shows "broker (producer_loop E w es) =
           broker w @ map (\<lambda>j. tick_publish E enc (now_calls w + 4 * j)) [0..<ticks (ctx_done w) es]"
proof (induction es arbitrary: w)
  case Nil
  then show ?case by (simp add: log_simps)
next
  case (Cons e es)
  show ?case
  proof (cases e)
    case StopCalled
    with Cons [of "snd (producer_Shutdown w)"] show ?thesis
      by (simp add: producer_Shutdown_def log_simps)
  next
    case (Tick p)
    show ?thesis
    proof (cases "ctx_done w \<and> p")
      case True
      with Tick show ?thesis by (simp add: producer_gone_frame log_simps)
    next
      case False
      have m: "marshal E (tick_message E (now_calls w)) = Inr (enc (tick_message E (now_calls w)))"
        by (simp add: tick_message_def enc)
      have "map (\<lambda>j. tick_publish E enc (now_calls w + 4 * j)) [0..<Suc (ticks (ctx_done w) es)]
            = tick_publish E enc (now_calls w)
              # map (\<lambda>j. tick_publish E enc (now_calls w + 4 + 4 * j)) [0..<ticks (ctx_done w) es]"
        by (simp add: upt_conv_Cons map_Suc_upt [symmetric] del: upt_Suc add: add.assoc)
      with Tick False Cons [of "on_tick E w"] show ?thesis
        by (auto simp: on_tick_marshal_ok [OF m] on_tick_ctx tick_publish_def)
    qed
  qed
qed

lemma producer_loop_failure_logged:
  assumes enc: "\<And>t1 t2 t3. marshal E (new_message t1 t2 t3) = Inr (enc (new_message t1 t2 t3))"
    and "j < ticks (ctx_done w) es"
    and "publish_result E (length (broker w) + j) = Some err"
  shows "Log Error [Err (Wrap ''failed to publish message'' err)] ''Failed to produce message''
           \<in> set (logs (producer_loop E w es))"
  using assms(2,3)
proof (induction es arbitrary: w j)
  case Nil
  then show ?case by simp
next
  case (Cons e es)
  show ?case
  proof (cases e)
    case StopCalled
    with Cons.prems Cons.IH [of j "snd (producer_Shutdown w)"] show ?thesis
      by (simp add: producer_Shutdown_def log_simps)
  next
    case (Tick p)
    show ?thesis
    proof (cases "ctx_done w \<and> p")
      case True
      with Tick Cons.prems show ?thesis by simp
    next
      case False
      have m: "marshal E (tick_message E (now_calls w)) = Inr (enc (tick_message E (now_calls w)))"
        by (simp add: tick_message_def enc)
      show ?thesis
      proof (cases j)
        case 0
        with Cons.prems
        have "Log Error [Err (Wrap ''failed to publish message'' err)] ''Failed to produce message''
                \<in> set (logs (on_tick E w))"
          by (simp add: on_tick_marshal_ok [OF m])
        with producer_loop_logs_grow [of "on_tick E w" E es] Tick False show ?thesis
          by auto
      next
        case (Suc k)
        with Cons.prems Tick False have "k < ticks (ctx_done (on_tick E w)) es"
          "publish_result E (length (broker (on_tick E w)) + k) = Some err"
          by (auto simp: on_tick_ctx on_tick_marshal_ok [OF m])
        from Cons.IH [OF this] Tick False show ?thesis by auto
      qed
    qed
  qed
qed

lemma on_tick_exited: "exited (on_tick E w) = exited w"
  by (simp add: on_tick_def produceMessage_def PublishMessage_def Now_def Let_def log_simps
      split: sum.splits option.splits prod.splits)

lemma producer_gone_stays_done: "ctx_done w \<Longrightarrow> ctx_done (producer_gone w es)"
  by (induction w es rule: producer_gone.induct) (simp_all add: producer_Shutdown_def log_simps)

lemma producer_returns_only_when_done:
  "\<not> exited w \<Longrightarrow> exited (producer_loop E w es) \<Longrightarrow> ctx_done (producer_loop E w es)"
proof (induction E w es rule: producer_loop.induct)
  case (1 E w)
  then show ?case by (simp add: log_simps split: if_splits)
next
  case (2 E w es)
  then show ?case by (simp add: producer_Shutdown_def log_simps)
next
  case (3 E w prefer_done es)
  show ?case
  proof (cases "ctx_done w \<and> prefer_done")
    case True
    then show ?thesis by (simp add: producer_gone_stays_done log_simps)
  next
    case False
    with 3 show ?thesis by (auto simp: on_tick_exited)
  qed
qed

text \<open>
  C7, as the code has it.  Let \<^verbatim>\<open>json.Marshal\<close> succeed on the producer's envelopes
  (\<open>enc\<close> is what it returns).  Under every schedule and whatever the outcomes of the
  publishes, the calls the producer loop issues to the channel are, in order, one
  \<^verbatim>\<open>Publish\<close> per tick the \<^verbatim>\<open>select\<close> handed to it, each carrying the encoding of
  an envelope built at that tick: action \<^verbatim>\<open>create_user\<close>, a payload named after the
  clock's seconds, and the identifier \<^verbatim>\<open>msg_\<close> followed by the clock's nanoseconds as
  \<^verbatim>\<open>int64\<close>.  The identifier is made of the clock and of nothing else: two ticks get the
  same identifier exactly when those readings agree as \<^verbatim>\<open>int64\<close>, so two ticks whose
  readings differ within the range of \<^verbatim>\<open>int64\<close> get different identifiers, and a tick
  whose reading repeats an earlier one repeats its identifier.  A publish that fails is logged at error level, and the later ticks
  publish all the same: the goroutine returns only when the context is done.
\<close>

theorem producer_publishes_on_every_tick:
  assumes "\<And>t1 t2 t3. marshal E (new_message t1 t2 t3) = Inr (enc (new_message t1 t2 t3))"
  shows "broker (producer_loop E w es) =
           broker w @ map (\<lambda>j. tick_publish E enc (now_calls w + 4 * j)) [0..<ticks (ctx_done w) es]
         \<and> (\<forall>j err. j < ticks (ctx_done w) es \<and> publish_result E (length (broker w) + j) = Some err
              \<longrightarrow> Log Error [Err (Wrap ''failed to publish message'' err)] ''Failed to produce message''
                    \<in> set (logs (producer_loop E w es)))
         \<and> (\<forall>n. tick_message E n =
               \<lparr>Action = ''create_user'',
                Payload = VUserPayload (''User_'' @ show_int (Unix (clock E n)))
                            (''user_'' @ show_int (Unix (clock E (n + 1))) @ ''@example.com''),
                MsgID = ''msg_'' @ show_int (UnixNano (clock E (n + 2)))\<rparr>)
         \<and> (\<forall>m n. MsgID (tick_message E m) = MsgID (tick_message E n)
               \<longleftrightarrow> UnixNano (clock E (m + 2)) = UnixNano (clock E (n + 2)))
         \<and> (\<forall>m n. - 9223372036854775808 \<le> clock E (m + 2) \<and> clock E (m + 2) < 9223372036854775808
                \<and> - 9223372036854775808 \<le> clock E (n + 2) \<and> clock E (n + 2) < 9223372036854775808
                \<and> clock E (m + 2) \<noteq> clock E (n + 2)
              \<longrightarrow> MsgID (tick_message E m) \<noteq> MsgID (tick_message E n))
         \<and> (\<not> exited w \<and> exited (producer_loop E w es) \<longrightarrow> ctx_done (producer_loop E w es))"
proof (intro conjI allI impI)
  show "broker (producer_loop E w es) =
           broker w @ map (\<lambda>j. tick_publish E enc (now_calls w + 4 * j)) [0..<ticks (ctx_done w) es]"
    by (rule producer_loop_broker [OF assms])
next
  fix j err
  assume "j < ticks (ctx_done w) es \<and> publish_result E (length (broker w) + j) = Some err"
  then show "Log Error [Err (Wrap ''failed to publish message'' err)] ''Failed to produce message''
               \<in> set (logs (producer_loop E w es))"
    using producer_loop_failure_logged [OF assms] by blast
next
  fix n
  show "tick_message E n =
          \<lparr>Action = ''create_user'',
           Payload = VUserPayload (''User_'' @ show_int (Unix (clock E n)))
                       (''user_'' @ show_int (Unix (clock E (n + 1))) @ ''@example.com''),
           MsgID = ''msg_'' @ show_int (UnixNano (clock E (n + 2)))\<rparr>"
    by (simp add: tick_message_def new_message_def)
next
  fix m n
  show "MsgID (tick_message E m) = MsgID (tick_message E n)
          \<longleftrightarrow> UnixNano (clock E (m + 2)) = UnixNano (clock E (n + 2))"
    by (rule tick_message_id_fresh)
next
  fix m n :: nat
  assume "- 9223372036854775808 \<le> clock E (m + 2) \<and> clock E (m + 2) < 9223372036854775808
            \<and> - 9223372036854775808 \<le> clock E (n + 2) \<and> clock E (n + 2) < 9223372036854775808
            \<and> clock E (m + 2) \<noteq> clock E (n + 2)"
  then show "MsgID (tick_message E m) \<noteq> MsgID (tick_message E n)"
    using tick_message_ids_distinct [of E m n] by blast
next
  assume "\<not> exited w \<and> exited (producer_loop E w es)"
  then show "ctx_done (producer_loop E w es)"
    using producer_returns_only_when_done by blast
qed

theorem producer_publishes_on_every_tick_witness:
  "broker (producer_loop sample_env fresh_world [Tick False, Tick False, StopCalled, Tick True, Tick False])
     = [tick_publish sample_env sample_enc 0, tick_publish sample_env sample_enc 4]
   \<and> Log Error [Err (Wrap ''failed to publish message'' (AMQPError ''channel/connection is not open''))]
        ''Failed to produce message''
       \<in> set (logs (producer_loop sample_env fresh_world
                      [Tick False, Tick False, StopCalled, Tick True, Tick False]))
   \<and> MsgID (tick_message sample_env 0) = ''msg_1700000000000002000''
   \<and> MsgID (tick_message sample_env 0) \<noteq> MsgID (tick_message sample_env 4)"
proof -
  let ?es = "[Tick False, Tick False, StopCalled, Tick True, Tick False]"
  have enc: "\<And>t1 t2 t3. marshal sample_env (new_message t1 t2 t3)
                          = Inr (sample_enc (new_message t1 t2 t3))"
    by (simp add: sample_env_def sample_marshal_def new_message_def)
  have t: "ticks (ctx_done fresh_world) ?es = 2"
    by (simp add: fresh_world_def)
  have p: "publish_result sample_env (length (broker fresh_world) + 0)
             = Some (AMQPError ''channel/connection is not open'')"
    by (simp add: sample_env_def fresh_world_def)
  have n: "now_calls fresh_world = 0" "broker fresh_world = []"
    by (simp_all add: fresh_world_def)
  have c: "UnixNano (clock sample_env (0 + 2)) = 1700000000000002000"
    by (simp add: sample_env_def UnixNano_def int64_def)
  have s: "show_int 1700000000000002000 = ''1700000000000002000''"
    by (simp add: show_int_def show_nat.simps digit_def)
  have range: "- 9223372036854775808 \<le> clock sample_env (0 + 2)
                 \<and> clock sample_env (0 + 2) < 9223372036854775808
               \<and> - 9223372036854775808 \<le> clock sample_env (4 + 2)
                 \<and> clock sample_env (4 + 2) < 9223372036854775808
               \<and> clock sample_env (0 + 2) \<noteq> clock sample_env (4 + 2)"
    by (simp add: sample_env_def)
  note inst = producer_publishes_on_every_tick [OF enc, where w = fresh_world and es = ?es]
  have b: "broker (producer_loop sample_env fresh_world ?es) =
             broker fresh_world @ map (\<lambda>j. tick_publish sample_env sample_enc (now_calls fresh_world + 4 * j))
                                    [0..<ticks (ctx_done fresh_world) ?es]"
    using inst by (rule conjunct1)
  have u: "map (\<lambda>j. tick_publish sample_env sample_enc (0 + 4 * j)) [0..<2]
             = [tick_publish sample_env sample_enc 0, tick_publish sample_env sample_enc 4]"
    by (simp add: numeral_2_eq_2)
  have first: "broker (producer_loop sample_env fresh_world ?es)
     = [tick_publish sample_env sample_enc 0, tick_publish sample_env sample_enc 4]"
    using b unfolding t n u by (simp only: append_Nil)
  have "\<forall>j err. j < ticks (ctx_done fresh_world) ?es
            \<and> publish_result sample_env (length (broker fresh_world) + j) = Some err
          \<longrightarrow> Log Error [Err (Wrap ''failed to publish message'' err)] ''Failed to produce message''
                \<in> set (logs (producer_loop sample_env fresh_world ?es))"
    using inst by (rule conjunct1 [OF conjunct2])
  moreover have "0 < ticks (ctx_done fresh_world) ?es"
    unfolding t by simp
  ultimately have second:
    "Log Error [Err (Wrap ''failed to publish message'' (AMQPError ''channel/connection is not open''))]
          ''Failed to produce message''
         \<in> set (logs (producer_loop sample_env fresh_world ?es))"
    using p by blast
  have "\<forall>n. tick_message sample_env n =
               \<lparr>Action = ''create_user'',
                Payload = VUserPayload (''User_'' @ show_int (Unix (clock sample_env n)))
                            (''user_'' @ show_int (Unix (clock sample_env (n + 1))) @ ''@example.com''),
                MsgID = ''msg_'' @ show_int (UnixNano (clock sample_env (n + 2)))\<rparr>"
    using inst by (rule conjunct1 [OF conjunct2 [OF conjunct2]])
  then have "MsgID (tick_message sample_env 0)
               = ''msg_'' @ show_int (UnixNano (clock sample_env (0 + 2)))"
    by simp
  then have third: "MsgID (tick_message sample_env 0) = ''msg_1700000000000002000''"
    unfolding c s by simp
  have "\<forall>m n. - 9223372036854775808 \<le> clock sample_env (m + 2)
                \<and> clock sample_env (m + 2) < 9223372036854775808
              \<and> - 9223372036854775808 \<le> clock sample_env (n + 2)
                \<and> clock sample_env (n + 2) < 9223372036854775808
              \<and> clock sample_env (m + 2) \<noteq> clock sample_env (n + 2)
          \<longrightarrow> MsgID (tick_message sample_env m) \<noteq> MsgID (tick_message sample_env n)"
    using inst by (rule conjunct1 [OF conjunct2 [OF conjunct2 [OF conjunct2 [OF conjunct2]]]])
  with range have fourth: "MsgID (tick_message sample_env 0) \<noteq> MsgID (tick_message sample_env 4)"
    by blast
  from first second third fourth show ?thesis by blast
qed

text \<open>
  C7, as stated, fails.  The wall clock is set back between two ticks, so that the second
  tick reads what the first read: the second tick publishes the first tick's envelope
  again, identifier and all.
\<close>

theorem identifier_repeats_when_clock_set_back:
  "MsgID (tick_message setback_env 0) = ''msg_1700000000000002000''
   \<and> MsgID (tick_message setback_env 4) = ''msg_1700000000000002000''
   \<and> tick_publish setback_env sample_enc 4 = tick_publish setback_env sample_enc 0
   \<and> broker (producer_loop setback_env fresh_world [Tick False, Tick False])
       = [tick_publish setback_env sample_enc 0, tick_publish setback_env sample_enc 4]"
proof -
  have enc: "\<And>t1 t2 t3. marshal setback_env (new_message t1 t2 t3)
                          = Inr (sample_enc (new_message t1 t2 t3))"
    by (simp add: setback_env_def sample_env_def sample_marshal_def new_message_def)
  have s: "show_int 1700000000000002000 = ''1700000000000002000''"
    by (simp add: show_int_def show_nat.simps digit_def)
  have m: "tick_message setback_env 4 = tick_message setback_env 0"
    by (simp add: tick_message_def setback_env_def)
  have i0: "MsgID (tick_message setback_env 0) = ''msg_1700000000000002000''"
    by (simp add: tick_message_def new_message_def setback_env_def UnixNano_def int64_def s)
  have p: "tick_publish setback_env sample_enc 4 = tick_publish setback_env sample_enc 0"
    by (simp add: tick_publish_def m) (simp add: setback_env_def)
  have "broker (producer_loop setback_env fresh_world [Tick False, Tick False])
          = broker fresh_world
            @ map (\<lambda>j. tick_publish setback_env sample_enc (now_calls fresh_world + 4 * j))
                [0..<ticks (ctx_done fresh_world) [Tick False, Tick False]]"
    by (rule producer_loop_broker [OF enc])
  also have "\<dots> = [tick_publish setback_env sample_enc 0, tick_publish setback_env sample_enc 4]"
    by (simp add: fresh_world_def numeral_2_eq_2)
  finally show ?thesis
    using i0 m p by simp
qed

section \<open>Shutdown\<close>

lemma consumer_gone_twice:
  "(consumer_gone w (es @ [CallShutdown, CallShutdown]))\<lparr>logs := l\<rparr>
     = (consumer_gone w (es @ [CallShutdown]))\<lparr>logs := l\<rparr>"
  "ctx_done (consumer_gone w (es @ [CallShutdown]))"
  by (induction w es rule: consumer_gone.induct) (simp_all add: consumer_Shutdown_def log_def)

lemma consumer_loop_twice:
  "(consumer_loop E w (es @ [CallShutdown, CallShutdown]))\<lparr>logs := l\<rparr>
     = (consumer_loop E w (es @ [CallShutdown]))\<lparr>logs := l\<rparr>
   \<and> ctx_done (consumer_loop E w (es @ [CallShutdown]))
   \<and> exited (consumer_loop E w (es @ [CallShutdown]))"
proof (induction E w es rule: consumer_loop.induct)
  case (1 E w)
  then show ?case by (simp add: consumer_Shutdown_def log_def)
next
  case (2 E w es)
  then show ?case by simp
next
  case (3 E w r prefer_done es)
  then show ?case
    by (auto simp: consumer_gone_twice consumer_gone_frame split: option.splits)
qed

lemma producer_gone_twice:
  "(producer_gone w (es @ [StopCalled, StopCalled]))\<lparr>logs := l\<rparr>
     = (producer_gone w (es @ [StopCalled]))\<lparr>logs := l\<rparr>"
  "ctx_done (producer_gone w (es @ [StopCalled]))"
  "exited (producer_gone w es) = exited w"
  by (induction w es rule: producer_gone.induct) (simp_all add: producer_Shutdown_def log_def)

lemma producer_loop_twice:
  "(producer_loop E w (es @ [StopCalled, StopCalled]))\<lparr>logs := l\<rparr>
     = (producer_loop E w (es @ [StopCalled]))\<lparr>logs := l\<rparr>
   \<and> ctx_done (producer_loop E w (es @ [StopCalled]))
   \<and> exited (producer_loop E w (es @ [StopCalled]))"
proof (induction E w es rule: producer_loop.induct)
  case (1 E w)
  then show ?case by (simp add: producer_Shutdown_def log_def)
next
  case (2 E w es)
  then show ?case by simp
next
  case (3 E w prefer_done es)
  then show ?case
    by (auto simp: producer_gone_twice)
qed

text \<open>
  C8.  \<^verbatim>\<open>Shutdown()\<close> of either worker returns nil, also when called a second time, and
  the second call changes nothing but the log (one more line): the context stays done.
  A schedule that ends with two calls of \<^verbatim>\<open>Shutdown()\<close> leaves the worker where the
  same schedule with one call leaves it, the log apart: context done, goroutine returned.
\<close>

theorem Shutdown_twice_same_as_once:
  "fst (consumer_Shutdown w) = None
   \<and> fst (consumer_Shutdown (snd (consumer_Shutdown w))) = None
   \<and> ctx_done (snd (consumer_Shutdown w))
   \<and> snd (consumer_Shutdown (snd (consumer_Shutdown w))) =
       (snd (consumer_Shutdown w))
         \<lparr>logs := logs (snd (consumer_Shutdown w)) @ [Log Info [] ''Stopping consumer worker'']\<rparr>
   \<and> (consumer_loop E w (cs @ [CallShutdown, CallShutdown]))\<lparr>logs := l\<rparr>
       = (consumer_loop E w (cs @ [CallShutdown]))\<lparr>logs := l\<rparr>
   \<and> ctx_done (consumer_loop E w (cs @ [CallShutdown]))
   \<and> exited (consumer_loop E w (cs @ [CallShutdown]))
   \<and> fst (producer_Shutdown w) = None
   \<and> fst (producer_Shutdown (snd (producer_Shutdown w))) = None
   \<and> ctx_done (snd (producer_Shutdown w))
   \<and> snd (producer_Shutdown (snd (producer_Shutdown w))) =
       (snd (producer_Shutdown w))
         \<lparr>logs := logs (snd (producer_Shutdown w)) @ [Log Info [] ''Stopping producer worker'']\<rparr>
   \<and> (producer_loop E w (ps @ [StopCalled, StopCalled]))\<lparr>logs := l\<rparr>
       = (producer_loop E w (ps @ [StopCalled]))\<lparr>logs := l\<rparr>
   \<and> ctx_done (producer_loop E w (ps @ [StopCalled]))
   \<and> exited (producer_loop E w (ps @ [StopCalled]))"
  using consumer_loop_twice [where E = E and w = w and es = cs and l = l]
    producer_loop_twice [where E = E and w = w and es = ps and l = l]
  by (simp add: consumer_Shutdown_def producer_Shutdown_def log_def)

theorem Shutdown_twice_same_as_once_witness:
  "ctx_done (consumer_loop sample_env fresh_world
               [Recv (Some ping_delivery) False, CallShutdown, CallShutdown])
   \<and> exited (consumer_loop sample_env fresh_world
               [Recv (Some ping_delivery) False, CallShutdown, CallShutdown])
   \<and> broker (consumer_loop sample_env fresh_world
               [Recv (Some ping_delivery) False, CallShutdown, CallShutdown])
       = broker (consumer_loop sample_env fresh_world [Recv (Some ping_delivery) False, CallShutdown])"
proof -
  let ?two = "consumer_loop sample_env fresh_world
                ([Recv (Some ping_delivery) False] @ [CallShutdown, CallShutdown])"
  let ?one = "consumer_loop sample_env fresh_world
                ([Recv (Some ping_delivery) False] @ [CallShutdown])"
  from Shutdown_twice_same_as_once [where w = fresh_world and E = sample_env
      and cs = "[Recv (Some ping_delivery) False]" and l = "[]"]
  have eq: "?two\<lparr>logs := []\<rparr> = ?one\<lparr>logs := []\<rparr>" and d: "ctx_done ?one" and x: "exited ?one"
    by blast+
  from eq have "ctx_done (?two\<lparr>logs := []\<rparr>) = ctx_done (?one\<lparr>logs := []\<rparr>)"
    "exited (?two\<lparr>logs := []\<rparr>) = exited (?one\<lparr>logs := []\<rparr>)"
    "broker (?two\<lparr>logs := []\<rparr>) = broker (?one\<lparr>logs := []\<rparr>)"
    by simp_all
  with d x show ?thesis by simp
qed

end
